theory Spec2Isabelle
  imports Complex_Main "HOL-Library.Char_ord" "HOL-Library.List_Lexorder" "HOL-Library.Sublist"
begin

section \<open>Text\<close>

text \<open>
  A Python \<open>str\<close> is modelled by its UTF-8 encoding, a list of 8-bit characters. Substring
  tests, concatenation and comparison of UTF-8 strings agree with the same operations on code
  points. Character classes and case mapping are modelled on the ASCII range: a byte above
  127 is an ordinary character that is neither a digit, nor white space, nor a cased letter
  (Python's \<open>str.lower\<close>, \<open>\<^verbatim>\<open>\d\<close>\<close> and \<open>\<^verbatim>\<open>\s\<close>\<close> also know the non-ASCII letters, digits and
  spaces of Unicode).
\<close>

definition upper_letters :: string where
  "upper_letters = ''ABCDEFGHIJKLMNOPQRSTUVWXYZ''"

definition lower_letters :: string where
  "lower_letters = ''abcdefghijklmnopqrstuvwxyz''"

definition lower_char :: "char \<Rightarrow> char" where
  "lower_char c = (case map_of (zip upper_letters lower_letters) c of Some d \<Rightarrow> d | None \<Rightarrow> c)"

definition upper_char :: "char \<Rightarrow> char" where
  "upper_char c = (case map_of (zip lower_letters upper_letters) c of Some d \<Rightarrow> d | None \<Rightarrow> c)"

definition lower :: "string \<Rightarrow> string" where
  "lower s = map lower_char s"

text \<open>\<open>sub in text\<close>: \<open>sub\<close> occurs in \<open>text\<close> as a contiguous substring.\<close>

fun starts_with :: "string \<Rightarrow> string \<Rightarrow> bool" where
  "starts_with [] t = True"
| "starts_with (c # cs) [] = False"
| "starts_with (c # cs) (d # ds) = (c = d \<and> starts_with cs ds)"

fun contains :: "string \<Rightarrow> string \<Rightarrow> bool" where
  "contains sub [] = (sub = [])"
| "contains sub (c # cs) = (starts_with sub (c # cs) \<or> contains sub cs)"

text \<open>\<open>sep.join(parts)\<close>.\<close>

fun join :: "string \<Rightarrow> string list \<Rightarrow> string" where
  "join sep [] = []"
| "join sep [p] = p"
| "join sep (p # q # ps) = p @ sep @ join sep (q # ps)"

section \<open>Data model\<close>

text \<open>
  The program passes dictionaries around. Every dictionary it builds (in the extractor, in the
  quick-entry parser and in \<open>add_entry\<close>) has all of its keys, so each is a record and the
  defaults of \<open>.get\<close> for an absent key are not modelled. A Python \<open>float\<close> is modelled by the
  rational number it stands for; rounding is outside the model.
\<close>

record item =
  name :: string
  qty :: int
  unit_price :: rat

record transaction =
  tx_date :: string
  tx_total :: rat
  tx_items :: "item list"
  tx_type :: string
  tx_description :: string
  tx_raw_text :: string

datatype error =
  FileNotFoundError
| ValueError
| OverflowError
| ServiceError

section \<open>config.py\<close>

text \<open>
  \<open>CATEGORY_RULES\<close>, a dictionary literal: iteration follows the order of the literal, and no
  keyword occurs twice. The accented letters are written as their UTF-8 bytes.
\<close>

definition CATEGORY_RULES :: "(string \<times> string) list" where
  "CATEGORY_RULES =
   [(''venda'', ''sales''),
    (''vendas'', ''sales''),
    (''sold'', ''sales''),
    (''sale'', ''sales''),
    (''receita'', ''sales''),
    (''revenue'', ''sales''),
    (''pagamento recebido'', ''sales''),
    (''payment received'', ''sales''),
    (''pix recebido'', ''sales''),
    (''fornecedor'', ''supplies''),
    (''supplier'', ''supplies''),
    (''material'', ''supplies''),
    (''mat'' @ [CHR 0xC3, CHR 0xA9] @ ''ria'', ''supplies''),
    (''insumo'', ''supplies''),
    (''ingrediente'', ''supplies''),
    (''estoque'', ''supplies''),
    (''stock'', ''supplies''),
    (''aluguel'', ''rent''),
    (''rent'', ''rent''),
    (''luz'', ''utilities''),
    (''energia'', ''utilities''),
    ([CHR 0xC3, CHR 0xA1] @ ''gua'', ''utilities''),
    (''water'', ''utilities''),
    (''electricity'', ''utilities''),
    (''internet'', ''internet''),
    (''telefone'', ''phone''),
    (''phone'', ''phone''),
    (''transporte'', ''transport''),
    (''uber'', ''transport''),
    (''gasolina'', ''transport''),
    (''gas'', ''transport''),
    (''fuel'', ''transport''),
    (''combust'' @ [CHR 0xC3, CHR 0xAD] @ ''vel'', ''transport''),
    (''almo'' @ [CHR 0xC3, CHR 0xA7] @ ''o'', ''food''),
    (''lanche'', ''food''),
    (''comida'', ''food''),
    (''restaurante'', ''food''),
    (''lunch'', ''food''),
    (''food'', ''food''),
    (''manuten'' @ [CHR 0xC3, CHR 0xA7, CHR 0xC3, CHR 0xA3] @ ''o'', ''maintenance''),
    (''conserto'', ''maintenance''),
    (''repair'', ''maintenance''),
    (''sal'' @ [CHR 0xC3, CHR 0xA1] @ ''rio'', ''wages''),
    (''funcion'' @ [CHR 0xC3, CHR 0xA1] @ ''rio'', ''wages''),
    (''employee'', ''wages''),
    (''salary'', ''wages''),
    (''wages'', ''wages'')]"

section \<open>Regular expressions\<close>

text \<open>
  The patterns of the program are values of \<open>re\<close>, run by a backtracking matcher that tries
  the alternatives in the order of Python's \<open>re\<close> module: a greedy repetition takes the longest
  run first, a lazy one the shortest, an alternation its branches from left to right, and the
  first way to complete the whole pattern is the match. Every repetition of the program
  repeats a single character class. A pattern compiled with \<open>IGNORECASE\<close> is written with
  character classes that ignore case.
\<close>

datatype re =
  Eps
| One "char \<Rightarrow> bool"
| Rep bool "char \<Rightarrow> bool" nat "nat option"
| Seq re re
| Alt re re
| Grp nat re
| Bol
| Eol
| End

text \<open>
  A position in the text is the character before it (\<open>None\<close> at the start of the text) and
  the text that remains. \<open>Bol\<close> and \<open>Eol\<close> are \<open>^\<close> and \<open>$\<close> under \<open>MULTILINE\<close>, \<open>End\<close> is \<open>$\<close>
  without it. \<open>Rep greedy P lo hi\<close> repeats the class \<open>P\<close> at least \<open>lo\<close> and at most \<open>hi\<close>
  times (\<open>None\<close>: no upper bound).
\<close>

type_synonym groups = "nat \<rightharpoonup> string"

definition newline :: char where
  "newline = CHR 0x0A"

fun dec :: "nat option \<Rightarrow> nat option" where
  "dec None = None"
| "dec (Some n) = Some (n - 1)"

fun reps :: "bool \<Rightarrow> (char \<Rightarrow> bool) \<Rightarrow> nat \<Rightarrow> nat option \<Rightarrow>
    (char option \<Rightarrow> string \<Rightarrow> 'a option) \<Rightarrow> char option \<Rightarrow> string \<Rightarrow> 'a option" where
  "reps greedy P lo hi k p [] = (if lo = 0 then k p [] else None)"
| "reps greedy P lo hi k p (c # cs) =
     (if 0 < lo then
        (if P c \<and> hi \<noteq> Some 0 then reps greedy P (lo - 1) (dec hi) k (Some c) cs else None)
      else if P c \<and> hi \<noteq> Some 0 then
        (if greedy then
           (case reps greedy P 0 (dec hi) k (Some c) cs of
              Some r \<Rightarrow> Some r
            | None \<Rightarrow> k p (c # cs))
         else
           (case k p (c # cs) of
              Some r \<Rightarrow> Some r
            | None \<Rightarrow> reps greedy P 0 (dec hi) k (Some c) cs))
      else k p (c # cs))"

primrec match :: "re \<Rightarrow> (char option \<Rightarrow> string \<Rightarrow> groups \<Rightarrow> 'a option) \<Rightarrow>
    char option \<Rightarrow> string \<Rightarrow> groups \<Rightarrow> 'a option" where
  "match Eps k p s g = k p s g"
| "match (One P) k p s g =
     (case s of [] \<Rightarrow> None | c # cs \<Rightarrow> if P c then k (Some c) cs g else None)"
| "match (Rep greedy P lo hi) k p s g = reps greedy P lo hi (\<lambda>p' s'. k p' s' g) p s"
| "match (Seq a b) k p s g = match a (match b k) p s g"
| "match (Alt a b) k p s g =
     (case match a k p s g of Some r \<Rightarrow> Some r | None \<Rightarrow> match b k p s g)"
| "match (Grp i r) k p s g =
     match r (\<lambda>p' s' g'. k p' s' (g'(i \<mapsto> take (length s - length s') s))) p s g"
| "match Bol k p s g = (if p = None \<or> p = Some newline then k p s g else None)"
| "match Eol k p s g = (if s = [] \<or> hd s = newline then k p s g else None)"
| "match End k p s g = (if s = [] \<or> s = [newline] then k p s g else None)"

text \<open>
  A match: the groups and the position where it ends. \<open>re_match\<close> is \<open>re.match\<close> (at the
  start of the text), \<open>search_from\<close> tries every start position from left to right
  (\<open>re.search\<close>), \<open>finditer\<close> lists the successive matches, each search starting where the
  match before it ended.
\<close>

type_synonym found = "groups \<times> char option \<times> string"

definition accept :: "char option \<Rightarrow> string \<Rightarrow> groups \<Rightarrow> found option" where
  "accept p s g = Some (g, p, s)"

definition re_match :: "re \<Rightarrow> string \<Rightarrow> groups option" where
  "re_match r s = map_option fst (match r accept None s Map.empty)"

fun search_from :: "re \<Rightarrow> char option \<Rightarrow> string \<Rightarrow> found option" where
  "search_from r p [] = match r accept p [] Map.empty"
| "search_from r p (c # cs) =
     (case match r accept p (c # cs) Map.empty of
        Some m \<Rightarrow> Some m
      | None \<Rightarrow> search_from r (Some c) cs)"

definition re_search :: "re \<Rightarrow> string \<Rightarrow> groups option" where
  "re_search r s = map_option fst (search_from r None s)"

text \<open>
  No pattern of the program matches the empty string, so a match always ends further right
  than the search started. The last branch, for a match that consumed nothing at the very
  start of the search, steps over one character.
\<close>

function finditer_from :: "re \<Rightarrow> char option \<Rightarrow> string \<Rightarrow> groups list" where
  "finditer_from r p s =
     (case search_from r p s of
        None \<Rightarrow> []
      | Some (g, p', s') \<Rightarrow>
          g # (if length s' < length s then finditer_from r p' s'
               else (case s of [] \<Rightarrow> [] | c # cs \<Rightarrow> finditer_from r (Some c) cs)))"
  by pat_completeness auto
termination
  by (relation "measure (\<lambda>(r, p, s). length s)") auto

definition finditer :: "re \<Rightarrow> string \<Rightarrow> groups list" where
  "finditer r s = finditer_from r None s"

definition group :: "groups \<Rightarrow> nat \<Rightarrow> string" where
  "group g i = (case g i of Some s \<Rightarrow> s | None \<Rightarrow> [])"

subsection \<open>Character classes and pattern syntax\<close>

definition is_digit :: "char \<Rightarrow> bool" where
  "is_digit c = (c \<in> set ''0123456789'')"

definition is_space :: "char \<Rightarrow> bool" where
  "is_space c = (c \<in> set [CHR 0x20, CHR 0x09, CHR 0x0A, CHR 0x0B, CHR 0x0C, CHR 0x0D,
                            CHR 0x1C, CHR 0x1D, CHR 0x1E, CHR 0x1F])"

definition is_money :: "char \<Rightarrow> bool" where
  "is_money c = (is_digit c \<or> c = CHR ''.'' \<or> c = CHR '','')"

definition any_char :: "char \<Rightarrow> bool" where
  "any_char c = (c \<noteq> newline)"

definition ch :: "char \<Rightarrow> char \<Rightarrow> bool" where
  "ch c x = (x = c)"

definition ci :: "char \<Rightarrow> char \<Rightarrow> bool" where
  "ci c x = (lower_char x = lower_char c)"

definition seqs :: "re list \<Rightarrow> re" where
  "seqs rs = foldr Seq rs Eps"

fun alts :: "re list \<Rightarrow> re" where
  "alts [] = Eps"
| "alts [r] = r"
| "alts (r # q # rs) = Alt r (alts (q # rs))"

definition lit :: "string \<Rightarrow> re" where
  "lit s = seqs (map (\<lambda>c. One (ch c)) s)"

definition lit_ci :: "string \<Rightarrow> re" where
  "lit_ci s = seqs (map (\<lambda>c. One (ci c)) s)"

definition star :: "(char \<Rightarrow> bool) \<Rightarrow> re" where
  "star P = Rep True P 0 None"

definition plus :: "(char \<Rightarrow> bool) \<Rightarrow> re" where
  "plus P = Rep True P 1 None"

definition lazy_plus :: "(char \<Rightarrow> bool) \<Rightarrow> re" where
  "lazy_plus P = Rep False P 1 None"

definition opt :: "(char \<Rightarrow> bool) \<Rightarrow> re" where
  "opt P = Rep True P 0 (Some 1)"

section \<open>Strings and numbers of the Python library\<close>

text \<open>\<open>s.strip()\<close>.\<close>

definition strip :: "string \<Rightarrow> string" where
  "strip s = rev (dropWhile is_space (rev (dropWhile is_space s)))"

text \<open>
  \<open>s.replace(old, new)\<close>, the occurrences of \<open>old\<close> taken from left to right without overlap.
  The program never replaces the empty string (the model then leaves \<open>s\<close> as it is).
\<close>

function replace :: "string \<Rightarrow> string \<Rightarrow> string \<Rightarrow> string" where
  "replace old new [] = []"
| "replace old new (c # cs) =
     (if old \<noteq> [] \<and> starts_with old (c # cs)
      then new @ replace old new (drop (length old - 1) cs)
      else c # replace old new cs)"
  by pat_completeness auto
termination
  by (relation "measure (\<lambda>(old, new, s). length s)") auto

definition digit_val :: "char \<Rightarrow> nat" where
  "digit_val c =
     (case map_of (zip ''0123456789'' [0, 1, 2, 3, 4, 5, 6, 7, 8, 9]) c of
        Some d \<Rightarrow> d
      | None \<Rightarrow> 0)"

text \<open>\<open>int(s)\<close> for a string of digits.\<close>

definition digits_val :: "string \<Rightarrow> nat" where
  "digits_val ds = foldl (\<lambda>a c. 10 * a + digit_val c) 0 ds"

text \<open>
  \<open>float(s)\<close> for a string of digits and dots, which is all the program gives it: digits with
  at most one dot and at least one digit denote a number, anything else raises \<open>ValueError\<close>,
  which every caller catches (\<open>None\<close>).
\<close>

definition py_float :: "string \<Rightarrow> rat option" where
  "py_float s =
     (let ip = takeWhile is_digit s; r = dropWhile is_digit s in
      case r of
        [] \<Rightarrow> if ip = [] then None else Some (of_nat (digits_val ip))
      | c # fp \<Rightarrow>
          if c = CHR ''.'' \<and> list_all is_digit fp \<and> (ip \<noteq> [] \<or> fp \<noteq> [])
          then Some (of_nat (digits_val ip) + of_nat (digits_val fp) / 10 ^ length fp)
          else None)"


text \<open>\<open>str(n)\<close> for a natural number, and \<open>%0wd\<close>.\<close>

definition digit_char :: "nat \<Rightarrow> char" where
  "digit_char n = ''0123456789'' ! (n mod 10)"

function decimal :: "nat \<Rightarrow> string" where
  "decimal n = (if n < 10 then [digit_char n] else decimal (n div 10) @ [digit_char (n mod 10)])"
  by pat_completeness auto
termination
  by (relation "measure id") auto

definition zfill :: "nat \<Rightarrow> nat \<Rightarrow> string" where
  "zfill w n = replicate (w - length (decimal n)) CHR ''0'' @ decimal n"

text \<open>\<open>s.capitalize()\<close>.\<close>

fun capitalize :: "string \<Rightarrow> string" where
  "capitalize [] = []"
| "capitalize (c # cs) = upper_char c # lower cs"




subsection \<open>Calendar dates\<close>

text \<open>
  \<open>datetime.date\<close>: year, month and day of the proleptic Gregorian calendar, years 1 to 9999.
  The constructor raises \<open>ValueError\<close> for anything else. Adding or subtracting a
  \<open>timedelta\<close> of whole days moves that many days along the calendar and raises
  \<open>OverflowError\<close> when it leaves the range of years.
\<close>

type_synonym date = "nat \<times> nat \<times> nat"

definition is_leap :: "nat \<Rightarrow> bool" where
  "is_leap y = (y mod 4 = 0 \<and> (y mod 100 \<noteq> 0 \<or> y mod 400 = 0))"

definition days_in_month :: "nat \<Rightarrow> nat \<Rightarrow> nat" where
  "days_in_month y m =
     (if m = 2 then (if is_leap y then 29 else 28)
      else if m = 4 \<or> m = 6 \<or> m = 9 \<or> m = 11 then 30
      else 31)"

fun valid_date :: "date \<Rightarrow> bool" where
  "valid_date (y, m, d) =
     (1 \<le> y \<and> y \<le> 9999 \<and> 1 \<le> m \<and> m \<le> 12 \<and> 1 \<le> d \<and> d \<le> days_in_month y m)"

definition make_date :: "nat \<Rightarrow> nat \<Rightarrow> nat \<Rightarrow> error + date" where
  "make_date y m d = (if valid_date (y, m, d) then Inr (y, m, d) else Inl ValueError)"

definition days_before_year :: "nat \<Rightarrow> nat" where
  "days_before_year y =
     (y - 1) * 365 + (y - 1) div 4 + (y - 1) div 400 - (y - 1) div 100"

fun days_before_month :: "nat \<Rightarrow> nat \<Rightarrow> nat" where
  "days_before_month y 0 = 0"
| "days_before_month y (Suc m) =
     (if m = 0 then 0 else days_before_month y m + days_in_month y m)"

fun toordinal :: "date \<Rightarrow> nat" where
  "toordinal (y, m, d) = days_before_year y + days_before_month y m + d"

text \<open>\<open>d.weekday()\<close>: Monday is 0, Sunday is 6.\<close>

definition weekday :: "date \<Rightarrow> nat" where
  "weekday dt = (toordinal dt + 6) mod 7"

fun next_day :: "date \<Rightarrow> date" where
  "next_day (y, m, d) =
     (if d < days_in_month y m then (y, m, d + 1)
      else if m < 12 then (y, m + 1, 1)
      else (y + 1, 1, 1))"

fun prev_day :: "date \<Rightarrow> date" where
  "prev_day (y, m, d) =
     (if 1 < d then (y, m, d - 1)
      else if 1 < m then (y, m - 1, days_in_month y (m - 1))
      else (y - 1, 12, 31))"

fun plus_days :: "date \<Rightarrow> nat \<Rightarrow> error + date" where
  "plus_days dt 0 = Inr dt"
| "plus_days dt (Suc n) =
     (if dt = (9999, 12, 31) then Inl OverflowError else plus_days (next_day dt) n)"

fun minus_days :: "date \<Rightarrow> nat \<Rightarrow> error + date" where
  "minus_days dt 0 = Inr dt"
| "minus_days dt (Suc n) =
     (if dt = (1, 1, 1) then Inl OverflowError else minus_days (prev_day dt) n)"

text \<open>\<open>d.isoformat()\<close>, and \<open>strftime("%Y-%m-%d")\<close> for the four-digit years of the clock.\<close>

fun isoformat :: "date \<Rightarrow> string" where
  "isoformat (y, m, d) = zfill 4 y @ ''-'' @ zfill 2 m @ ''-'' @ zfill 2 d"

text \<open>
  \<open>date.fromisoformat(s)\<close> for the form \<open>YYYY-MM-DD\<close> (the other ISO 8601 forms that newer
  versions of the library read are not modelled).
\<close>

definition fromisoformat :: "string \<Rightarrow> error + date" where
  "fromisoformat s =
     (if length s = 10 \<and> list_all is_digit (take 4 s) \<and> s ! 4 = CHR ''-''
         \<and> list_all is_digit (take 2 (drop 5 s)) \<and> s ! 7 = CHR ''-''
         \<and> list_all is_digit (drop 8 s)
      then make_date (digits_val (take 4 s)) (digits_val (take 2 (drop 5 s)))
             (digits_val (drop 8 s))
      else Inl ValueError)"

section \<open>extractor.py\<close>

text \<open>
  Functions whose Python name starts with an underscore are written without it. The clock is
  a parameter, \<open>today\<close>.
\<close>

definition parse_brazilian_number :: "string \<Rightarrow> rat option" where
  "parse_brazilian_number s =
     py_float (replace '','' ''.'' (replace ''.'' []
       (strip (replace '' '' [] (replace ''R$'' [] s)))))"






definition pattern_produto :: re where
  "pattern_produto = seqs
     [lit_ci ''Produto:'', star is_space, Grp 1 (lazy_plus any_char), plus is_space,
      lit_ci ''Qtd:'', star is_space, Grp 2 (plus is_digit), plus is_space,
      lit_ci ''Valor:'', star is_space, opt (ci CHR ''R''), opt (ch CHR ''$''), star is_space,
      Grp 3 (plus is_money)]"

definition is_x :: "char \<Rightarrow> bool" where
  "is_x c = (c = CHR ''x'' \<or> c = CHR ''X'')"

definition pattern_qty_x :: re where
  "pattern_qty_x = seqs
     [Bol, Grp 1 (lazy_plus any_char), plus is_space, Grp 2 (plus is_digit), star is_space,
      One is_x, plus is_space, opt (ch CHR ''R''), opt (ch CHR ''$''), star is_space,
      Grp 3 (plus is_money), star is_space, Eol]"

definition pattern_price_only :: re where
  "pattern_price_only = seqs
     [Bol, Grp 1 (lazy_plus any_char), Rep True is_space 2 None,
      opt (ch CHR ''R''), opt (ch CHR ''$''), star is_space,
      Grp 2 (plus is_money), star is_space, Eol]"

definition qty_suffix :: re where
  "qty_suffix = seqs [plus is_digit, star is_space, One is_x, star is_space, End]"

definition skip_words :: "string list" where
  "skip_words =
     [''total'', ''subtotal'', ''troco'', ''forma'', ''pgto'', ''pagamento'', ''data'', ''nf '']"

text \<open>
  The three loops of \<open>_extract_items\<close>. Each takes the matches of its pattern in order and
  updates \<open>items\<close> and \<open>seen_lines\<close>. A price is used when \<open>if price\<close> holds: it was parsed
  and is not zero.
\<close>

type_synonym collected = "item list \<times> string set"

definition add_produto :: "collected \<Rightarrow> groups \<Rightarrow> collected" where
  "add_produto acc m =
     (let nm = strip (group m 1);
          q = int (digits_val (group m 2)) in
      case parse_brazilian_number (group m 3) of
        Some price \<Rightarrow>
          if price \<noteq> 0 \<and> nm \<notin> snd acc
          then (fst acc @ [\<lparr>name = nm, qty = q, unit_price = price\<rparr>], insert nm (snd acc))
          else acc
      | None \<Rightarrow> acc)"

definition add_qty_x :: "collected \<Rightarrow> groups \<Rightarrow> collected" where
  "add_qty_x acc m =
     (let nm = strip (group m 1);
          q = int (digits_val (group m 2)) in
      case parse_brazilian_number (group m 3) of
        Some price \<Rightarrow>
          if price \<noteq> 0 \<and> nm \<notin> snd acc
          then (fst acc @ [\<lparr>name = nm, qty = q, unit_price = price\<rparr>], insert nm (snd acc))
          else acc
      | None \<Rightarrow> acc)"

definition add_price_only :: "collected \<Rightarrow> groups \<Rightarrow> collected" where
  "add_price_only acc m =
     (let nm = strip (group m 1) in
      case parse_brazilian_number (group m 2) of
        Some price \<Rightarrow>
          if price = 0 then acc
          else if re_search qty_suffix nm \<noteq> None then acc
          else if nm \<in> snd acc \<or> list_ex (\<lambda>w. contains w (lower nm)) skip_words then acc
          else (fst acc @ [\<lparr>name = nm, qty = 1, unit_price = price\<rparr>], insert nm (snd acc))
      | None \<Rightarrow> acc)"

definition items_produto :: "string \<Rightarrow> collected" where
  "items_produto text = foldl add_produto ([], {}) (finditer pattern_produto text)"

definition items_qty_x :: "string \<Rightarrow> collected" where
  "items_qty_x text = foldl add_qty_x (items_produto text) (finditer pattern_qty_x text)"

definition items_price_only :: "string \<Rightarrow> collected" where
  "items_price_only text =
     foldl add_price_only (items_qty_x text) (finditer pattern_price_only text)"

definition extract_items :: "string \<Rightarrow> item list" where
  "extract_items text = fst (items_price_only text)"







text \<open>
  The language-model services are outside the program: each is a function from the text sent
  to the content received, or the exception raised. \<open>None\<close>: no API key is configured or the
  client library is absent, and the program takes its regular-expression path.
\<close>

record services =
  llm_extract :: "string \<Rightarrow> error + transaction"
  llm_classify :: "string \<Rightarrow> error + string"


section \<open>categorizer.py\<close>

fun match_rules_in :: "(string \<times> string) list \<Rightarrow> string \<Rightarrow> string option" where
  "match_rules_in [] text = None"
| "match_rules_in ((keyword, category) # rules) text =
     (if contains keyword text then Some category else match_rules_in rules text)"

definition match_rules :: "string \<Rightarrow> string option" where
  "match_rules text = match_rules_in CATEGORY_RULES text"

definition valid_categories :: "string list" where
  "valid_categories =
     [''sales'', ''supplies'', ''rent'', ''utilities'', ''internet'', ''phone'',
      ''transport'', ''food'', ''maintenance'', ''wages'', ''taxes'', ''marketing'',
      ''equipment'', ''other'']"

definition categorize_with_llm :: "services \<Rightarrow> string \<Rightarrow> error + string" where
  "categorize_with_llm svc text =
     (case llm_classify svc (take 500 text) of
        Inl e \<Rightarrow> Inl e
      | Inr content \<Rightarrow>
          (let category = lower (strip content) in
           Inr (if category \<in> set valid_categories then category else ''other'')))"

definition searchable :: "transaction \<Rightarrow> string" where
  "searchable t =
     lower (join '' '' [tx_description t, tx_raw_text t, join '' '' (map name (tx_items t))])"

definition llm_or_other :: "services option \<Rightarrow> string \<Rightarrow> error + string" where
  "llm_or_other openai text =
     (case openai of Some svc \<Rightarrow> categorize_with_llm svc text | None \<Rightarrow> Inr ''other'')"

definition categorize :: "services option \<Rightarrow> transaction \<Rightarrow> error + string" where
  "categorize openai t =
     (if tx_type t = ''sale'' then Inr ''sales''
      else
        (case match_rules (searchable t) of
           Some category \<Rightarrow>
             if category \<noteq> [] then Inr category else llm_or_other openai (searchable t)
         | None \<Rightarrow> llm_or_other openai (searchable t)))"

section \<open>ledger.py\<close>

text \<open>
  The ledger file holds a list of entries; a missing file reads as the empty list. The
  identifier (eight characters of a random UUID) and the timestamp of a new entry come from
  outside the program and are parameters. Reading and writing the file are taken to succeed.
\<close>

record entry =
  e_id :: string
  e_timestamp :: string
  e_date :: string
  e_total :: rat
  e_type :: string
  e_category :: string
  e_description :: string
  e_items :: "item list"

definition add_entry ::
    "string \<Rightarrow> string \<Rightarrow> transaction \<Rightarrow> string \<Rightarrow> entry list \<Rightarrow> entry \<times> entry list" where
  "add_entry new_id now t category entries =
     (let e = \<lparr>e_id = new_id,
                e_timestamp = now,
                e_date = tx_date t,
                e_total = tx_total t,
                e_type = tx_type t,
                e_category = category,
                e_description = tx_description t,
                e_items = tx_items t\<rparr>
      in (e, entries @ [e]))"

text \<open>An optional bound is used when it is given and not the empty string.\<close>

definition get_entries :: "string option \<Rightarrow> string option \<Rightarrow> entry list \<Rightarrow> entry list" where
  "get_entries start_date end_date entries =
     (let entries =
            (case start_date of
               Some s \<Rightarrow> if s \<noteq> [] then filter (\<lambda>e. e_date e \<ge> s) entries else entries
             | None \<Rightarrow> entries)
      in case end_date of
           Some s \<Rightarrow> if s \<noteq> [] then filter (\<lambda>e. e_date e \<le> s) entries else entries
         | None \<Rightarrow> entries)"

definition get_week_entries ::
    "date \<Rightarrow> string option \<Rightarrow> entry list \<Rightarrow> error + entry list" where
  "get_week_entries today reference_date entries =
     (case (case reference_date of
              Some s \<Rightarrow> if s \<noteq> [] then fromisoformat s else Inr today
            | None \<Rightarrow> Inr today) of
        Inl e \<Rightarrow> Inl e
      | Inr ref \<Rightarrow>
          (case minus_days ref (weekday ref) of
             Inl e \<Rightarrow> Inl e
           | Inr monday \<Rightarrow>
               (case plus_days monday 6 of
                  Inl e \<Rightarrow> Inl e
                | Inr sunday \<Rightarrow>
                    Inr (get_entries (Some (isoformat monday)) (Some (isoformat sunday))
                           entries))))"

definition clear_ledger :: "entry list \<Rightarrow> entry list" where
  "clear_ledger entries = []"









section \<open>ocr.py\<close>


definition lines :: "string list \<Rightarrow> string" where
  "lines ls = join [newline] ls"




section \<open>whatsapp\_sim.py\<close>

text \<open>
  Everything the program takes from outside: the language-model services, the OCR engine,
  the file system, the clock (the date and the timestamp) and the source of identifiers.
\<close>

record env =
  ev_openai :: "services option"
  ev_tesseract :: "(string \<Rightarrow> error + string) option"
  ev_is_file :: "string \<Rightarrow> bool"
  ev_today :: date
  ev_now :: string
  ev_new_id :: string


definition quick_verbs :: "string list" where
  "quick_verbs =
     [''venda'', ''vendas'', ''sale'', ''receita'', ''despesa'', ''gasto'', ''expense'',
      ''compra'']"

definition quick_re :: re where
  "quick_re = seqs
     [Grp 1 (alts (map lit_ci quick_verbs)), plus is_space,
      opt (ci CHR ''R''), opt (ch CHR ''$''), star is_space,
      Grp 2 (plus is_money), star is_space, Grp 3 (star any_char)]"

definition parse_quick_entry :: "date \<Rightarrow> string \<Rightarrow> transaction option" where
  "parse_quick_entry today text =
     (case re_match quick_re (strip text) of
        None \<Rightarrow> None
      | Some m \<Rightarrow>
          (let type_word = lower (group m 1);
               amount_str = replace '','' ''.'' (replace ''.'' [] (group m 2));
               description =
                 (if strip (group m 3) \<noteq> [] then strip (group m 3) else capitalize type_word)
           in case py_float amount_str of
                None \<Rightarrow> None
              | Some amount \<Rightarrow>
                  Some \<lparr>tx_date = isoformat today,
                        tx_total = amount,
                        tx_items = [],
                        tx_type =
                          (if type_word \<in> set [''venda'', ''vendas'', ''sale'', ''receita'']
                           then ''sale'' else ''expense''),
                        tx_description = description,
                        tx_raw_text = text\<rparr>))"

text \<open>
  The replies of \<open>process_text_message\<close>, before they are rendered as text: the entries of
  the week that the summary is written from, the three fixed messages, and the entry that a
  quick entry recorded.
\<close>

datatype reply =
  Summary "entry list"
| Cleared
| Help
| Recorded entry
| NotUnderstood

definition process_text_message ::
    "env \<Rightarrow> string \<Rightarrow> entry list \<Rightarrow> (error + reply) \<times> entry list" where
  "process_text_message ev user_message ledger =
     (let msg_lower = lower (strip user_message) in
      if msg_lower \<in> set [''resumo'', ''resumo semanal'', ''summary'', ''weekly''] then
        (case get_week_entries (ev_today ev) None ledger of
           Inl e \<Rightarrow> (Inl e, ledger)
         | Inr entries \<Rightarrow> (Inr (Summary entries), ledger))
      else if msg_lower \<in> set [''limpar'', ''reset'', ''clear''] then
        (Inr Cleared, clear_ledger ledger)
      else if msg_lower \<in> set [''ajuda'', ''help'', ''?''] then
        (Inr Help, ledger)
      else
        (case parse_quick_entry (ev_today ev) user_message of
           Some quick \<Rightarrow>
             (case categorize (ev_openai ev) quick of
                Inl e \<Rightarrow> (Inl e, ledger)
              | Inr category \<Rightarrow>
                  (let (e, ledger') = add_entry (ev_new_id ev) (ev_now ev) quick category ledger
                   in (Inr (Recorded e), ledger')))
         | None \<Rightarrow> (Inr NotUnderstood, ledger)))"

section \<open>Notions of the specification\<close>

text \<open>The keywords that \<open>CATEGORY_RULES\<close> maps to the category \<open>sales\<close>.\<close>

definition sales_keywords_of_rules :: "string list" where
  "sales_keywords_of_rules =
     [''venda'', ''vendas'', ''sold'', ''sale'', ''receita'', ''revenue'',
      ''pagamento recebido'', ''payment received'', ''pix recebido'']"

text \<open>An expense whose description mentions a \<open>receita\<close> (a prescription, or a recipe).\<close>

definition tx_receita :: transaction where
  "tx_receita =
     \<lparr>tx_date = ''2026-11-04'', tx_total = 120, tx_items = [], tx_type = ''expense'',
      tx_description = ''receita medica'', tx_raw_text = ''gasto 120 receita medica''\<rparr>"

text \<open>
  The invariant of the three loops of \<open>_extract_items\<close>: the names of the items collected so
  far are all different, and \<open>seen_lines\<close> is the set of these names.
\<close>

definition names_seen :: "collected \<Rightarrow> bool" where
  "names_seen acc = (distinct (map name (fst acc)) \<and> snd acc = set (map name (fst acc)))"

section \<open>Example inputs\<close>

text \<open>
  A receipt that names \<open>Bolo\<close> in a labeled line, in a quantity line and in a bare price
  line, \<open>Torta\<close> in a quantity line and in a bare price line, and \<open>Suco\<close> once.
\<close>

definition bolo3 :: string where
  "bolo3 = lines
     [''Produto: Bolo  Qtd: 2  Valor: R$35,00'',
      ''Bolo  1x  R$40,00'',
      ''Bolo    R$5,00'',
      ''Torta  1x  R$45,00'',
      ''Torta    R$9,00'',
      ''Suco    R$7,50'']"









text \<open>
  What a pattern matches, without the order in which the matcher looks for it:
  \<open>den r p w rest\<close> says that \<open>r\<close> can match the word \<open>w\<close> when the character before \<open>w\<close>
  is \<open>p\<close> and the text after \<open>w\<close> is \<open>rest\<close>.
\<close>

definition lastp :: "char option \<Rightarrow> string \<Rightarrow> char option" where
  "lastp p w = (if w = [] then p else Some (last w))"

fun count_ok :: "nat \<Rightarrow> nat option \<Rightarrow> bool" where
  "count_ok n None = True"
| "count_ok n (Some h) = (n \<le> h)"

fun den :: "re \<Rightarrow> char option \<Rightarrow> string \<Rightarrow> string \<Rightarrow> bool" where
  "den Eps p w rest = (w = [])"
| "den (One P) p w rest = (\<exists>c. w = [c] \<and> P c)"
| "den (Rep greedy P lo hi) p w rest = (list_all P w \<and> lo \<le> length w \<and> count_ok (length w) hi)"
| "den (Seq a b) p w rest =
     (\<exists>u v. w = u @ v \<and> den a p u (v @ rest) \<and> den b (lastp p u) v rest)"
| "den (Alt a b) p w rest = (den a p w rest \<or> den b p w rest)"
| "den (Grp i a) p w rest = den a p w rest"
| "den Bol p w rest = (w = [] \<and> (p = None \<or> p = Some newline))"
| "den Eol p w rest = (w = [] \<and> (rest = [] \<or> hd rest = newline))"
| "den End p w rest = (w = [] \<and> (rest = [] \<or> rest = [newline]))"




section \<open>Properties of the matcher\<close>

text \<open>
  Soundness: when the matcher succeeds, the text splits into a word that the pattern matches
  and the rest, on which the continuation succeeded.
\<close>

lemma lastp_Nil [simp]: "lastp p [] = p"
  by (simp add: lastp_def)

lemma lastp_Cons [simp]: "lastp p (c # cs) = lastp (Some c) cs"
  by (simp add: lastp_def)

lemma lastp_append [simp]: "lastp p (u @ v) = lastp (lastp p u) v"
  by (induction u arbitrary: p) simp_all




text \<open>What sequences, alternations and literals match.\<close>

lemma den_seqs_Nil: "den (seqs []) p w rest = (w = [])"
  by (simp add: seqs_def)















section \<open>Claims\<close>

subsection \<open>Quick entries and the rule table\<close>

lemma quick_gasto_groups:
  "map_option (\<lambda>m. (group m 1, group m 2, group m 3)) (re_match quick_re (strip ''gasto 50''))
     = Some (''gasto'', ''50'', [])"
  by code_simp

lemma gasto_rules: "match_rules ''gasto gasto 50 '' = Some ''transport''"
  by code_simp

lemma gasto_earlier:
  "match_rules_in (takeWhile (\<lambda>r. fst r \<noteq> ''gas'') CATEGORY_RULES) ''gasto gasto 50 '' = None"
  by code_simp

text \<open>
  C9. The quick entry \<open>gasto 50\<close> is an expense described by its capitalised verb, and its
  category is \<open>transport\<close>, not \<open>other\<close>: the text that the rules are matched against is the
  description, the message and the (empty) item names in lower case, no rule before the
  keyword \<open>gas\<close> matches it, and \<open>gas\<close> occurs inside the verb \<open>gasto\<close>. The rule decides
  before any classification service is asked, so this holds with or without one.
\<close>

theorem gasto_50_is_transport:
  "parse_quick_entry td ''gasto 50'' =
     Some \<lparr>tx_date = isoformat td, tx_total = 50, tx_items = [], tx_type = ''expense'',
           tx_description = ''Gasto'', tx_raw_text = ''gasto 50''\<rparr>
   \<and> searchable
        \<lparr>tx_date = isoformat td, tx_total = 50, tx_items = [], tx_type = ''expense'',
         tx_description = ''Gasto'', tx_raw_text = ''gasto 50''\<rparr> = ''gasto gasto 50 ''
   \<and> match_rules_in (takeWhile (\<lambda>r. fst r \<noteq> ''gas'') CATEGORY_RULES) ''gasto gasto 50 '' = None
   \<and> contains ''gas'' (lower ''gasto'')
   \<and> categorize svc
        \<lparr>tx_date = isoformat td, tx_total = 50, tx_items = [], tx_type = ''expense'',
         tx_description = ''Gasto'', tx_raw_text = ''gasto 50''\<rparr> = Inr ''transport''"
proof -
  obtain m where m: "re_match quick_re (strip ''gasto 50'') = Some m"
    "group m 1 = ''gasto''" "group m 2 = ''50''" "group m 3 = []"
    using quick_gasto_groups by auto
  have m1: "group m (Suc 0) = ''gasto''" using m(2) by simp
  have f: "py_float ''50'' = Some 50" by code_simp
  have l: "lower ''gasto'' = ''gasto''" "capitalize ''gasto'' = ''Gasto''" by code_simp+
  have r: "replace '','' ''.'' (replace ''.'' [] ''50'') = ''50''" by code_simp
  have s: "lower ''Gasto gasto 50 '' = ''gasto gasto 50 ''" by code_simp
  have c: "contains ''gas'' ''gasto''" by code_simp
  have 1: "parse_quick_entry td ''gasto 50'' =
     Some \<lparr>tx_date = isoformat td, tx_total = 50, tx_items = [], tx_type = ''expense'',
           tx_description = ''Gasto'', tx_raw_text = ''gasto 50''\<rparr>"
    unfolding parse_quick_entry_def m
    by (simp add: m m1 f l r Let_def strip_def del: isoformat.simps capitalize.simps)
  have 2: "searchable
        \<lparr>tx_date = isoformat td, tx_total = 50, tx_items = [], tx_type = ''expense'',
         tx_description = ''Gasto'', tx_raw_text = ''gasto 50''\<rparr> = ''gasto gasto 50 ''"
    by (simp add: searchable_def s)
  have 3: "categorize svc
        \<lparr>tx_date = isoformat td, tx_total = 50, tx_items = [], tx_type = ''expense'',
         tx_description = ''Gasto'', tx_raw_text = ''gasto 50''\<rparr> = Inr ''transport''"
    unfolding categorize_def 2 by (simp add: gasto_rules)
  show ?thesis using 1 2 3 c l gasto_earlier by simp
qed

theorem gasto_50_is_transport_witness:
  "map_option (\<lambda>t. (tx_type t, categorize None t)) (parse_quick_entry (2026, 11, 4) ''gasto 50'')
     = Some (''expense'', Inr ''transport'')"
  using gasto_50_is_transport [of "(2026, 11, 4)" None] by simp

subsection \<open>The categorizer\<close>

lemma match_rules_in_append:
  "match_rules_in (a @ b) t =
     (case match_rules_in a t of Some c \<Rightarrow> Some c | None \<Rightarrow> match_rules_in b t)"
  by (induction a) auto

lemma match_rules_in_Some_mem: "match_rules_in rs t = Some c \<Longrightarrow> c \<in> snd ` set rs"
  by (induction rs) (auto split: if_splits)

lemma match_rules_in_None_iff:
  "(match_rules_in rs t = None) = (\<not> list_ex (\<lambda>r. contains (fst r) t) rs)"
  by (induction rs) (auto split: if_splits)

lemma rules_split:
  "CATEGORY_RULES = map (\<lambda>k. (k, ''sales'')) sales_keywords_of_rules @ drop 9 CATEGORY_RULES"
  by (simp add: CATEGORY_RULES_def sales_keywords_of_rules_def)

lemma rules_rest_not_sales: "''sales'' \<notin> snd ` set (drop 9 CATEGORY_RULES)"
  by (simp add: CATEGORY_RULES_def)

lemma match_rules_sales_iff:
  "(match_rules text = Some ''sales'') = list_ex (\<lambda>kw. contains kw text) sales_keywords_of_rules"
proof -
  let ?a = "map (\<lambda>k. (k, ''sales'')) sales_keywords_of_rules"
  let ?b = "drop 9 CATEGORY_RULES"
  have m: "match_rules text =
      (case match_rules_in ?a text of Some c \<Rightarrow> Some c | None \<Rightarrow> match_rules_in ?b text)"
    unfolding match_rules_def by (subst rules_split) (rule match_rules_in_append)
  have ex: "list_ex (\<lambda>r. contains (fst r) text) ?a
      = list_ex (\<lambda>kw. contains kw text) sales_keywords_of_rules"
    by (simp add: list_ex_iff)
  show ?thesis
  proof (cases "match_rules_in ?a text")
    case None
    then have "\<not> list_ex (\<lambda>kw. contains kw text) sales_keywords_of_rules"
      using match_rules_in_None_iff [of "?a" "text"] ex by simp
    moreover have "match_rules_in ?b text \<noteq> Some ''sales''"
      using match_rules_in_Some_mem [of "?b" "text" "''sales''"] rules_rest_not_sales by blast
    ultimately show ?thesis using None m by simp
  next
    case (Some c)
    then have "c \<in> snd ` set ?a" by (rule match_rules_in_Some_mem)
    then have "c = ''sales''" by auto
    moreover have "list_ex (\<lambda>kw. contains kw text) sales_keywords_of_rules"
      using match_rules_in_None_iff [of "?a" "text"] ex Some by simp
    ultimately show ?thesis using Some m by simp
  qed
qed

text \<open>
  C1, as amended. For a transaction that is not a sale, the walk over the rules returns
  \<open>sales\<close> exactly when the text searched contains one of the nine keywords that the table
  maps to \<open>sales\<close>; they come first in the table, so any of them wins over every other
  rule. Without a classification service the categorizer returns \<open>sales\<close> in exactly these
  cases.
\<close>

theorem expense_sales_iff_keyword:
  assumes "tx_type t \<noteq> ''sale''"
  shows "(match_rules (searchable t) = Some ''sales'') =
           list_ex (\<lambda>kw. contains kw (searchable t))
             [''venda'', ''vendas'', ''sold'', ''sale'', ''receita'', ''revenue'',
              ''pagamento recebido'', ''payment received'', ''pix recebido'']
         \<and> (categorize None t = Inr ''sales'') =
           list_ex (\<lambda>kw. contains kw (searchable t))
             [''venda'', ''vendas'', ''sold'', ''sale'', ''receita'', ''revenue'',
              ''pagamento recebido'', ''payment received'', ''pix recebido'']"
proof -
  have 1: "(match_rules (searchable t) = Some ''sales'') =
      list_ex (\<lambda>kw. contains kw (searchable t)) sales_keywords_of_rules"
    by (rule match_rules_sales_iff)
  have 2: "(categorize None t = Inr ''sales'') = (match_rules (searchable t) = Some ''sales'')"
    using assms by (auto simp: categorize_def llm_or_other_def split: option.splits)
  show ?thesis using 1 2 unfolding sales_keywords_of_rules_def by simp
qed

text \<open>
  C1 as stated fails: the quick entry \<open>gasto 120 receita medica\<close> is an expense, and the rule
  for the keyword \<open>receita\<close> gives it the category \<open>sales\<close>.
\<close>

theorem expense_categorized_as_sales:
  "parse_quick_entry (2026, 11, 4) ''gasto 120 receita medica'' = Some tx_receita
   \<and> tx_type tx_receita = ''expense''
   \<and> match_rules (searchable tx_receita) = Some ''sales''
   \<and> categorize None tx_receita = Inr ''sales''"
  by code_simp

theorem expense_sales_iff_keyword_witness:
  "tx_type \<lparr>tx_date = ''2026-11-04'', tx_total = 50, tx_items = [], tx_type = ''expense'',
       tx_description = ''uber'', tx_raw_text = ''gasto 50 uber''\<rparr> \<noteq> ''sale''
   \<and> categorize None \<lparr>tx_date = ''2026-11-04'', tx_total = 50, tx_items = [], tx_type = ''expense'',
       tx_description = ''uber'', tx_raw_text = ''gasto 50 uber''\<rparr> \<noteq> Inr ''sales''"
proof -
  have s: "searchable \<lparr>tx_date = ''2026-11-04'', tx_total = 50, tx_items = [], tx_type = ''expense'',
       tx_description = ''uber'', tx_raw_text = ''gasto 50 uber''\<rparr> = ''uber gasto 50 uber ''"
    by code_simp
  show ?thesis
    using expense_sales_iff_keyword [of "\<lparr>tx_date = ''2026-11-04'', tx_total = 50, tx_items = [],
       tx_type = ''expense'', tx_description = ''uber'', tx_raw_text = ''gasto 50 uber''\<rparr>"]
    unfolding s by simp
qed

subsection \<open>Item extraction\<close>

lemma add_produto_seen: "names_seen acc \<Longrightarrow> names_seen (add_produto acc m)"
  by (auto simp: names_seen_def add_produto_def Let_def split: option.splits)

lemma add_qty_x_seen: "names_seen acc \<Longrightarrow> names_seen (add_qty_x acc m)"
  by (auto simp: names_seen_def add_qty_x_def Let_def split: option.splits)

lemma add_price_only_seen: "names_seen acc \<Longrightarrow> names_seen (add_price_only acc m)"
  by (auto simp: names_seen_def add_price_only_def Let_def split: option.splits)

lemma foldl_seen:
  "(\<forall>acc m. names_seen acc \<longrightarrow> names_seen (f acc m)) \<Longrightarrow> names_seen acc \<Longrightarrow>
     names_seen (foldl f acc ms)"
proof (induction ms arbitrary: acc)
  case Nil
  then show ?case by simp
next
  case (Cons m ms)
  from Cons.prems have "names_seen (f acc m)" by blast
  with Cons.IH Cons.prems(1) have "names_seen (foldl f (f acc m) ms)" by blast
  then show ?case by simp
qed

lemma add_produto_extends: "\<exists>ys. fst (add_produto acc m) = fst acc @ ys"
  by (auto simp: add_produto_def Let_def split: option.splits)

lemma add_qty_x_extends: "\<exists>ys. fst (add_qty_x acc m) = fst acc @ ys"
  by (auto simp: add_qty_x_def Let_def split: option.splits)

lemma add_price_only_extends: "\<exists>ys. fst (add_price_only acc m) = fst acc @ ys"
  by (auto simp: add_price_only_def Let_def split: option.splits)

lemma foldl_extends:
  assumes "\<And>acc m. \<exists>ys. fst (f acc m) = fst acc @ ys"
  shows "\<exists>ys. fst (foldl f acc ms) = fst acc @ ys"
proof (induction ms arbitrary: acc)
  case Nil
  show ?case by simp
next
  case (Cons m ms)
  obtain ys where 1: "fst (f acc m) = fst acc @ ys" using assms by blast
  obtain zs where 2: "fst (foldl f (f acc m) ms) = fst (f acc m) @ zs" using Cons by blast
  show ?case using 1 2 by simp
qed

lemma items_price_only_seen: "names_seen (items_price_only text)"
proof -
  have "names_seen ([], {})" by (simp add: names_seen_def)
  then have "names_seen (items_produto text)"
    unfolding items_produto_def using add_produto_seen by (blast intro: foldl_seen)
  then have "names_seen (items_qty_x text)"
    unfolding items_qty_x_def using add_qty_x_seen by (blast intro: foldl_seen)
  then show ?thesis
    unfolding items_price_only_def using add_price_only_seen by (blast intro: foldl_seen)
qed

text \<open>
  C4. No two extracted items have the same name (the name is the stripped text of the first
  group). The items of the labeled lines are kept, in their order, at the front of the
  items after the quantity lines, and these at the front of the final list: a later
  pattern family only appends items, and never one whose name is already there.
\<close>

theorem extract_items_first_writer_wins:
  "distinct (map name (extract_items text))
   \<and> (\<exists>later. fst (items_qty_x text) = fst (items_produto text) @ later)
   \<and> (\<exists>later. extract_items text = fst (items_qty_x text) @ later)"
proof -
  have 1: "distinct (map name (extract_items text))"
    using items_price_only_seen [of "text"] by (simp add: names_seen_def extract_items_def)
  have 2: "\<exists>later. fst (items_qty_x text) = fst (items_produto text) @ later"
    unfolding items_qty_x_def by (rule foldl_extends [OF add_qty_x_extends])
  have 3: "\<exists>later. extract_items text = fst (items_qty_x text) @ later"
    unfolding extract_items_def items_price_only_def
    by (rule foldl_extends [OF add_price_only_extends])
  show ?thesis using 1 2 3 by blast
qed

lemma bolo3_items:
  "extract_items bolo3 =
     [\<lparr>name = ''Bolo'', qty = 2, unit_price = 35\<rparr>,
      \<lparr>name = ''Torta'', qty = 1, unit_price = 45\<rparr>,
      \<lparr>name = ''Suco'', qty = 1, unit_price = 15 / 2\<rparr>]"
  by code_simp

theorem extract_items_first_writer_wins_witness:
  "distinct (map name (extract_items bolo3)) \<and>
   extract_items bolo3 =
     [\<lparr>name = ''Bolo'', qty = 2, unit_price = 35\<rparr>,
      \<lparr>name = ''Torta'', qty = 1, unit_price = 45\<rparr>,
      \<lparr>name = ''Suco'', qty = 1, unit_price = 15 / 2\<rparr>]"
  using extract_items_first_writer_wins [of bolo3] bolo3_items by simp

subsection \<open>The receipt pipeline\<close>




subsection \<open>Statistics\<close>





















subsection \<open>The form of a quick entry\<close>










subsection \<open>The amount of a quick entry\<close>


























end
